theory Spec2Isabelle
  imports Complex_Main
begin

section \<open>JavaScript numbers\<close>

text \<open>
  A JavaScript \<^verbatim>\<open>number\<close> is modelled as an extended rational: a finite value, the two
  infinities, or NaN. Finite arithmetic is exact here (the rounding of a finite result to
  the nearest double and the sign of zero are not modelled); the special values follow
  IEEE 754 as JavaScript exposes it: a non-zero value divided by zero is an infinity,
  \<^verbatim>\<open>0/0\<close> and \<^verbatim>\<open>0 * Infinity\<close> are NaN, NaN is absorbing, every comparison
  with NaN is false.
\<close>

datatype jsnum = Num rat | PosInf | NegInf | NaN

fun isNaN :: "jsnum \<Rightarrow> bool" where
  "isNaN NaN = True"
| "isNaN (Num _) = False"
| "isNaN PosInf = False"
| "isNaN NegInf = False"

fun isFinite :: "jsnum \<Rightarrow> bool" where
  "isFinite (Num _) = True"
| "isFinite PosInf = False"
| "isFinite NegInf = False"
| "isFinite NaN = False"

text \<open>The sign of a number other than NaN, as \<open>-1\<close>, \<open>0\<close> or \<open>1\<close>.\<close>

fun js_sign :: "jsnum \<Rightarrow> int" where
  "js_sign (Num q) = (if q = 0 then 0 else if 0 < q then 1 else -1)"
| "js_sign PosInf = 1"
| "js_sign NegInf = -1"
| "js_sign NaN = 0"

definition inf_of_sign :: "int \<Rightarrow> jsnum" where
  "inf_of_sign s = (if s = 0 then NaN else if 0 < s then PosInf else NegInf)"

text \<open>\<^verbatim>\<open>a * b\<close>\<close>

fun js_mul :: "jsnum \<Rightarrow> jsnum \<Rightarrow> jsnum" where
  "js_mul (Num a) (Num b) = Num (a * b)"
| "js_mul NaN _ = NaN"
| "js_mul _ NaN = NaN"
| "js_mul a b = inf_of_sign (js_sign a * js_sign b)"

text \<open>\<^verbatim>\<open>a / b\<close>\<close>

fun js_div :: "jsnum \<Rightarrow> jsnum \<Rightarrow> jsnum" where
  "js_div (Num a) (Num b) = (if b = 0 then inf_of_sign (js_sign (Num a)) else Num (a / b))"
| "js_div NaN _ = NaN"
| "js_div _ NaN = NaN"
| "js_div (Num a) _ = Num 0"
| "js_div a (Num b) = inf_of_sign (js_sign a * (if b < 0 then -1 else 1))"
| "js_div _ _ = NaN"

text \<open>\<^verbatim>\<open>a + b\<close>\<close>

fun js_add :: "jsnum \<Rightarrow> jsnum \<Rightarrow> jsnum" where
  "js_add (Num a) (Num b) = Num (a + b)"
| "js_add NaN _ = NaN"
| "js_add _ NaN = NaN"
| "js_add PosInf NegInf = NaN"
| "js_add NegInf PosInf = NaN"
| "js_add (Num a) b = b"
| "js_add a _ = a"

text \<open>\<^verbatim>\<open>a < b\<close> and \<^verbatim>\<open>a > b\<close>\<close>

fun js_lt :: "jsnum \<Rightarrow> jsnum \<Rightarrow> bool" where
  "js_lt (Num a) (Num b) = (a < b)"
| "js_lt NaN _ = False"
| "js_lt _ NaN = False"
| "js_lt NegInf b = (b \<noteq> NegInf)"
| "js_lt a PosInf = (a \<noteq> PosInf)"
| "js_lt _ _ = False"

definition js_gt :: "jsnum \<Rightarrow> jsnum \<Rightarrow> bool" where
  "js_gt a b = js_lt b a"

text \<open>
  \<^verbatim>\<open>Math.round(x)\<close>: the integer nearest to \<open>x\<close>, a tie going towards \<open>+\<infinity>\<close>;
  infinities and NaN are returned as they are.
\<close>

fun Math_round :: "jsnum \<Rightarrow> jsnum" where
  "Math_round (Num q) = Num (of_int \<lfloor>q + 1 / 2\<rfloor>)"
| "Math_round x = x"

text \<open>Truthiness of a number: every number except \<open>0\<close> and NaN.\<close>

definition truthy :: "jsnum \<Rightarrow> bool" where
  "truthy x = (x \<noteq> Num 0 \<and> x \<noteq> NaN)"

text \<open>
  An optional property of type \<^verbatim>\<open>number | undefined\<close> is a \<open>jsnum option\<close>,
  \<open>None\<close> being \<^verbatim>\<open>undefined\<close>. \<^verbatim>\<open>x || d\<close>:
\<close>

definition num_or :: "jsnum option \<Rightarrow> jsnum \<Rightarrow> jsnum" where
  "num_or x d = (case x of None \<Rightarrow> d | Some v \<Rightarrow> if truthy v then v else d)"

text \<open>\<^verbatim>\<open>x ? Math.round(x * f) : undefined\<close>\<close>

definition scale_opt :: "jsnum option \<Rightarrow> jsnum \<Rightarrow> jsnum option" where
  "scale_opt x f =
     (case x of None \<Rightarrow> None
      | Some v \<Rightarrow> if truthy v then Some (Math_round (js_mul v f)) else None)"

section \<open>Diet data (shared/types/diet.interface)\<close>

text \<open>
  Modelled from the spec: the interfaces \<^verbatim>\<open>NutritionItem\<close>, \<^verbatim>\<open>Meal\<close> and
  \<^verbatim>\<open>DietPlan\<close> of shared/types/diet.interface, whose declarations are not among the
  sources. The fields are those of the specification's data model, which are the ones
  the service reads and writes; an optional property is an \<open>option\<close>. The id of a plan
  is absent until the store assigns it.
\<close>

record NutritionItem =
  item_name :: string
  item_quantity :: string
  item_calories :: jsnum
  item_protein :: "jsnum option"
  item_carbs :: "jsnum option"
  item_fat :: "jsnum option"

record Macros =
  m_protein :: jsnum
  m_carbs :: jsnum
  m_fat :: jsnum
  m_fiber :: "jsnum option"

record Meal =
  meal_name :: string
  items :: "NutritionItem list"
  meal_totalCalories :: jsnum
  macros :: Macros

record DietPlan =
  dp_id :: "string option"
  dp_userId :: string
  dp_name :: string
  dp_description :: string
  dp_goal :: string
  dp_totalCalories :: jsnum
  dp_targetMacros :: Macros
  dp_meals :: "Meal list"
  dp_restrictions :: "string list"

section \<open>The response envelope (shared/utils/api-response)\<close>

record 'a ApiResponse =
  success :: bool
  data :: "'a option"
  error :: "string option"
  message :: "string option"

text \<open>
  Modelled from the spec: \<^verbatim>\<open>createSuccessResponse\<close> and \<^verbatim>\<open>createErrorResponse\<close>
  of shared/utils/api-response, which build the envelope
  \<^verbatim>\<open>{success: true, data, message?}\<close> or \<^verbatim>\<open>{success: false, error, message?}\<close>.
\<close>

definition createSuccessResponse :: "'a \<Rightarrow> string option \<Rightarrow> 'a ApiResponse" where
  "createSuccessResponse d msg = \<lparr>success = True, data = Some d, error = None, message = msg\<rparr>"

definition createErrorResponse :: "string \<Rightarrow> string option \<Rightarrow> 'a ApiResponse" where
  "createErrorResponse e msg = \<lparr>success = False, data = None, error = Some e, message = msg\<rparr>"

section \<open>DietService\<close>

subsection \<open>calculateTotalMacros\<close>

text \<open>
  \<^verbatim>\<open>meals.reduce((total, meal) => ..., {protein: 0, carbs: 0, fat: 0, fiber: 0})\<close>:
  \<open>addMacros\<close> is the reducer, \<open>zeroMacros\<close> the initial value. The accumulator's
  fiber is always a number; a meal's fiber is \<^verbatim>\<open>meal.macros.fiber || 0\<close>.
\<close>

definition acc_fiber :: "Macros \<Rightarrow> jsnum" where
  "acc_fiber tot = (case m_fiber tot of Some v \<Rightarrow> v | None \<Rightarrow> NaN)"

definition addMacros :: "Macros \<Rightarrow> Meal \<Rightarrow> Macros" where
  "addMacros tot meal =
     \<lparr>m_protein = js_add (m_protein tot) (m_protein (macros meal)),
      m_carbs = js_add (m_carbs tot) (m_carbs (macros meal)),
      m_fat = js_add (m_fat tot) (m_fat (macros meal)),
      m_fiber = Some (js_add (acc_fiber tot) (num_or (m_fiber (macros meal)) (Num 0)))\<rparr>"

definition zeroMacros :: Macros where
  "zeroMacros = \<lparr>m_protein = Num 0, m_carbs = Num 0, m_fat = Num 0, m_fiber = Some (Num 0)\<rparr>"

definition calculateTotalMacros :: "Meal list \<Rightarrow> Macros" where
  "calculateTotalMacros meals = foldl addMacros zeroMacros meals"

subsection \<open>The requests (shared/dto/generate-diet.dto)\<close>

text \<open>
  Modelled from the spec: the class \<^verbatim>\<open>GenerateDietDto\<close> of
  shared/dto/generate-diet.dto, whose declaration is not among the sources. userId,
  calories and goal are required, the rest optional.
  \<open>PartialGenerateDietDto\<close> is \<^verbatim>\<open>Partial<GenerateDietDto>\<close>: every property optional.
\<close>

record GenerateDietDto =
  gd_userId :: string
  gd_calories :: jsnum
  gd_goal :: string
  gd_restrictions :: "string list option"
  gd_mealsPerDay :: "jsnum option"
  gd_targetProtein :: "jsnum option"
  gd_preferredFoods :: "string list option"
  gd_avoidFoods :: "string list option"
  gd_preferences :: "string option"

record PartialGenerateDietDto =
  pd_userId :: "string option"
  pd_calories :: "jsnum option"
  pd_goal :: "string option"
  pd_restrictions :: "string list option"
  pd_mealsPerDay :: "jsnum option"
  pd_targetProtein :: "jsnum option"
  pd_preferredFoods :: "string list option"
  pd_avoidFoods :: "string list option"
  pd_preferences :: "string option"

text \<open>
  \<^verbatim>\<open>x || d\<close> on an optional string (the empty string is falsy) and on an optional
  array (every array is truthy).
\<close>

definition str_or :: "string option \<Rightarrow> string \<Rightarrow> string" where
  "str_or x d = (case x of None \<Rightarrow> d | Some v \<Rightarrow> if v \<noteq> [] then v else d)"

definition list_or :: "'a list option \<Rightarrow> 'a list \<Rightarrow> 'a list" where
  "list_or x d = (case x of None \<Rightarrow> d | Some v \<Rightarrow> v)"

subsection \<open>The collaborators\<close>

text \<open>
  The draft a provider returns, and the collaborators of the service as an environment:
  the configured provider name, the two providers, and the two operations of the store.
  A collaborator either throws (\<open>Inl\<close> the error's message) or returns. What the service
  does to them is recorded as a list of events, in order.
\<close>

record AiDietResponse =
  ai_name :: string
  ai_description :: string
  ai_meals :: "Meal list"

record DietEnv =
  ai_defaultProvider :: "string option"
  gemini_generateDietPlan :: "GenerateDietDto \<Rightarrow> string + AiDietResponse"
  openai_generateDietPlan :: "GenerateDietDto \<Rightarrow> string + AiDietResponse"
  getDietPlan :: "string \<Rightarrow> string + DietPlan option"
  saveDietPlan :: "DietPlan \<Rightarrow> string + DietPlan"

datatype DietEvent =
    GetDietPlan string
  | SaveDietPlan DietPlan
  | GeminiGenerateDietPlan GenerateDietDto
  | OpenAiGenerateDietPlan GenerateDietDto

subsection \<open>generateDiet\<close>

text \<open>
  The provider is chosen by \<^verbatim>\<open>configService.get('ai.defaultProvider') || 'openai'\<close>;
  \<open>callProvider\<close> is the call that produces \<^verbatim>\<open>aiResponse\<close>, with its event.
\<close>

definition callProvider :: "DietEnv \<Rightarrow> GenerateDietDto \<Rightarrow> (string + AiDietResponse) \<times> DietEvent" where
  "callProvider env dto =
     (let provider = str_or (ai_defaultProvider env) ''openai''
      in if provider = ''gemini''
         then (gemini_generateDietPlan env dto, GeminiGenerateDietPlan dto)
         else (openai_generateDietPlan env dto, OpenAiGenerateDietPlan dto))"

text \<open>The object \<^verbatim>\<open>dietPlan\<close> built from the request and the draft; it has no id yet.\<close>

definition dietPlan :: "GenerateDietDto \<Rightarrow> AiDietResponse \<Rightarrow> DietPlan" where
  "dietPlan dto aiResponse =
     (let totalMacros = calculateTotalMacros (ai_meals aiResponse)
      in \<lparr>dp_id = None,
          dp_userId = gd_userId dto,
          dp_name = ai_name aiResponse,
          dp_description = ai_description aiResponse,
          dp_goal = gd_goal dto,
          dp_totalCalories = gd_calories dto,
          dp_targetMacros = totalMacros,
          dp_meals = ai_meals aiResponse,
          dp_restrictions = list_or (gd_restrictions dto) []\<rparr>)"

definition generateDiet :: "DietEnv \<Rightarrow> GenerateDietDto \<Rightarrow> DietPlan ApiResponse \<times> DietEvent list" where
  "generateDiet env dto =
     (case fst (callProvider env dto) of
        Inl msg \<Rightarrow> (createErrorResponse msg (Some ''Failed to generate diet plan''),
                    [snd (callProvider env dto)])
      | Inr aiResponse \<Rightarrow>
          (case saveDietPlan env (dietPlan dto aiResponse) of
             Inl msg \<Rightarrow> (createErrorResponse msg (Some ''Failed to generate diet plan''),
                         [snd (callProvider env dto), SaveDietPlan (dietPlan dto aiResponse)])
           | Inr savedDiet \<Rightarrow>
               (createSuccessResponse savedDiet (Some ''Diet plan generated successfully''),
                [snd (callProvider env dto), SaveDietPlan (dietPlan dto aiResponse)])))"

subsection \<open>regenerateDiet\<close>

text \<open>The merge of the stored plan with the modifications (\<^verbatim>\<open>updatedDto\<close>).\<close>

definition updatedDto :: "DietPlan \<Rightarrow> PartialGenerateDietDto \<Rightarrow> GenerateDietDto" where
  "updatedDto existingPlan modifications =
     \<lparr>gd_userId = dp_userId existingPlan,
      gd_calories = num_or (pd_calories modifications) (dp_totalCalories existingPlan),
      gd_goal = str_or (pd_goal modifications) (dp_goal existingPlan),
      gd_restrictions = Some (list_or (pd_restrictions modifications) (dp_restrictions existingPlan)),
      gd_mealsPerDay = pd_mealsPerDay modifications,
      gd_targetProtein = pd_targetProtein modifications,
      gd_preferredFoods = pd_preferredFoods modifications,
      gd_avoidFoods = pd_avoidFoods modifications,
      gd_preferences = pd_preferences modifications\<rparr>"

definition regenerateDiet ::
  "DietEnv \<Rightarrow> string \<Rightarrow> PartialGenerateDietDto \<Rightarrow> DietPlan ApiResponse \<times> DietEvent list" where
  "regenerateDiet env planId modifications =
     (case getDietPlan env planId of
        Inl msg \<Rightarrow> (createErrorResponse msg (Some ''Failed to regenerate diet plan''),
                    [GetDietPlan planId])
      | Inr None \<Rightarrow> (createErrorResponse ''Diet plan not found''
                       (Some ''Cannot regenerate non-existent plan''), [GetDietPlan planId])
      | Inr (Some existingPlan) \<Rightarrow>
          (let r = generateDiet env (updatedDto existingPlan modifications)
           in (fst r, GetDietPlan planId # snd r)))"

subsection \<open>adjustCalories\<close>

definition scalingFactor :: "DietPlan \<Rightarrow> jsnum \<Rightarrow> jsnum" where
  "scalingFactor existingPlan newCalories = js_div newCalories (dp_totalCalories existingPlan)"

definition adjustedItem :: "jsnum \<Rightarrow> NutritionItem \<Rightarrow> NutritionItem" where
  "adjustedItem f item =
     item\<lparr>item_calories := Math_round (js_mul (item_calories item) f),
          item_protein := scale_opt (item_protein item) f,
          item_carbs := scale_opt (item_carbs item) f,
          item_fat := scale_opt (item_fat item) f\<rparr>"

definition adjustedMeal :: "jsnum \<Rightarrow> Meal \<Rightarrow> Meal" where
  "adjustedMeal f meal =
     meal\<lparr>meal_totalCalories := Math_round (js_mul (meal_totalCalories meal) f),
          items := map (adjustedItem f) (items meal),
          macros := \<lparr>m_protein = Math_round (js_mul (m_protein (macros meal)) f),
                     m_carbs = Math_round (js_mul (m_carbs (macros meal)) f),
                     m_fat = Math_round (js_mul (m_fat (macros meal)) f),
                     m_fiber = scale_opt (m_fiber (macros meal)) f\<rparr>\<rparr>"

definition adjustedMeals :: "DietPlan \<Rightarrow> jsnum \<Rightarrow> Meal list" where
  "adjustedMeals existingPlan newCalories =
     map (adjustedMeal (scalingFactor existingPlan newCalories)) (dp_meals existingPlan)"

definition adjustedPlan :: "DietPlan \<Rightarrow> jsnum \<Rightarrow> DietPlan" where
  "adjustedPlan existingPlan newCalories =
     existingPlan\<lparr>dp_totalCalories := newCalories,
                  dp_meals := adjustedMeals existingPlan newCalories,
                  dp_targetMacros := calculateTotalMacros (adjustedMeals existingPlan newCalories)\<rparr>"

definition adjustCalories :: "DietEnv \<Rightarrow> string \<Rightarrow> jsnum \<Rightarrow> DietPlan ApiResponse \<times> DietEvent list" where
  "adjustCalories env planId newCalories =
     (case getDietPlan env planId of
        Inl msg \<Rightarrow> (createErrorResponse msg (Some ''Failed to adjust diet calories''),
                    [GetDietPlan planId])
      | Inr None \<Rightarrow> (createErrorResponse ''Diet plan not found''
                       (Some ''Cannot adjust calories for non-existent plan''), [GetDietPlan planId])
      | Inr (Some existingPlan) \<Rightarrow>
          (case saveDietPlan env (adjustedPlan existingPlan newCalories) of
             Inl msg \<Rightarrow> (createErrorResponse msg (Some ''Failed to adjust diet calories''),
                         [GetDietPlan planId, SaveDietPlan (adjustedPlan existingPlan newCalories)])
           | Inr savedDiet \<Rightarrow>
               (createSuccessResponse savedDiet (Some ''Diet plan calories adjusted successfully''),
                [GetDietPlan planId, SaveDietPlan (adjustedPlan existingPlan newCalories)])))"

section \<open>DietController.adjustCalories\<close>

text \<open>
  \<^verbatim>\<open>parseInt(calories, 10)\<close>: leading white space is skipped, one sign is read, then
  the longest run of decimal digits; whatever follows the digits is ignored, and with no
  digit the result is NaN. A \<open>char\<close> is a code unit below 256, so white space is the
  white space of that range.
\<close>

definition isWhiteSpace :: "char \<Rightarrow> bool" where
  "isWhiteSpace c = ((of_char c :: nat) \<in> {9, 10, 11, 12, 13, 32, 160})"

definition isDigit :: "char \<Rightarrow> bool" where
  "isDigit c = (48 \<le> (of_char c :: nat) \<and> (of_char c :: nat) \<le> 57)"

definition digitValue :: "char \<Rightarrow> int" where
  "digitValue c = int (of_char c) - 48"

definition parseInt :: "string \<Rightarrow> jsnum" where
  "parseInt inputString =
     (let S = dropWhile isWhiteSpace inputString;
          sign = (if S \<noteq> [] \<and> hd S = CHR ''-'' then - 1 else (1::int));
          S' = (if S \<noteq> [] \<and> (hd S = CHR ''+'' \<or> hd S = CHR ''-'') then tl S else S);
          Z = takeWhile isDigit S'
      in if Z = [] then NaN
         else Num (of_int (sign * foldl (\<lambda>a c. 10 * a + digitValue c) 0 Z)))"

definition invalidCalories :: "DietPlan ApiResponse" where
  "invalidCalories =
     \<lparr>success = False, data = None,
      error = Some ''Invalid calories value. Must be between 1000 and 5000.'',
      message = None\<rparr>"

definition controller_adjustCalories ::
  "DietEnv \<Rightarrow> string \<Rightarrow> string \<Rightarrow> DietPlan ApiResponse \<times> DietEvent list" where
  "controller_adjustCalories env planId calories =
     (let newCalories = parseInt calories
      in if isNaN newCalories \<or> js_lt newCalories (Num 1000) \<or> js_gt newCalories (Num 5000)
         then (invalidCalories, [])
         else adjustCalories env planId newCalories)"

section \<open>WorkoutService\<close>

text \<open>
  Modelled from the spec: the interface \<^verbatim>\<open>WorkoutPlan\<close> of
  shared/types/workout.interface and the class \<^verbatim>\<open>GenerateWorkoutDto\<close> of
  shared/dto/generate-workout.dto, whose declarations are not among the sources. The
  fields are the ones the service reads and writes; what an exercise holds is never
  looked at, so \<open>Exercise\<close> is left unspecified.
\<close>

typedecl Exercise

record WorkoutPlan =
  wp_id :: "string option"
  wp_userId :: string
  wp_name :: string
  wp_description :: string
  wp_difficulty :: string
  wp_goal :: string
  wp_daysPerWeek :: jsnum
  wp_estimatedDuration :: jsnum
  wp_exercises :: "Exercise list"

record GenerateWorkoutDto =
  gw_userId :: string
  gw_goal :: string
  gw_difficulty :: string
  gw_daysPerWeek :: jsnum
  gw_duration :: jsnum
  gw_equipment :: "string list option"
  gw_targetMuscles :: "string list option"
  gw_preferences :: "string option"

record PartialGenerateWorkoutDto =
  pw_userId :: "string option"
  pw_goal :: "string option"
  pw_difficulty :: "string option"
  pw_daysPerWeek :: "jsnum option"
  pw_duration :: "jsnum option"
  pw_equipment :: "string list option"
  pw_targetMuscles :: "string list option"
  pw_preferences :: "string option"

record AiWorkoutResponse =
  aw_name :: string
  aw_description :: string
  aw_exercises :: "Exercise list"

record WorkoutEnv =
  w_defaultProvider :: "string option"
  gemini_generateWorkoutPlan :: "GenerateWorkoutDto \<Rightarrow> string + AiWorkoutResponse"
  openai_generateWorkoutPlan :: "GenerateWorkoutDto \<Rightarrow> string + AiWorkoutResponse"
  getWorkoutPlan :: "string \<Rightarrow> string + WorkoutPlan option"
  saveWorkoutPlan :: "WorkoutPlan \<Rightarrow> string + WorkoutPlan"

datatype WorkoutEvent =
    GetWorkoutPlan string
  | SaveWorkoutPlan WorkoutPlan
  | GeminiGenerateWorkoutPlan GenerateWorkoutDto
  | OpenAiGenerateWorkoutPlan GenerateWorkoutDto

definition generateWorkout ::
  "WorkoutEnv \<Rightarrow> GenerateWorkoutDto \<Rightarrow> WorkoutPlan ApiResponse \<times> WorkoutEvent list" where
  "generateWorkout env dto =
     (let provider = str_or (w_defaultProvider env) ''openai'';
          called = (if provider = ''gemini''
                    then (gemini_generateWorkoutPlan env dto, GeminiGenerateWorkoutPlan dto)
                    else (openai_generateWorkoutPlan env dto, OpenAiGenerateWorkoutPlan dto))
      in case fst called of
           Inl msg \<Rightarrow> (createErrorResponse msg (Some ''Failed to generate workout plan''),
                       [snd called])
         | Inr aiResponse \<Rightarrow>
             (let workoutPlan = \<lparr>wp_id = None,
                                 wp_userId = gw_userId dto,
                                 wp_name = aw_name aiResponse,
                                 wp_description = aw_description aiResponse,
                                 wp_difficulty = gw_difficulty dto,
                                 wp_goal = gw_goal dto,
                                 wp_daysPerWeek = gw_daysPerWeek dto,
                                 wp_estimatedDuration = gw_duration dto,
                                 wp_exercises = aw_exercises aiResponse\<rparr>
              in case saveWorkoutPlan env workoutPlan of
                   Inl msg \<Rightarrow> (createErrorResponse msg (Some ''Failed to generate workout plan''),
                               [snd called, SaveWorkoutPlan workoutPlan])
                 | Inr savedWorkout \<Rightarrow>
                     (createSuccessResponse savedWorkout
                        (Some ''Workout plan generated successfully''),
                      [snd called, SaveWorkoutPlan workoutPlan])))"

text \<open>The merge of \<^verbatim>\<open>regenerateWorkout\<close> (its \<^verbatim>\<open>updatedDto\<close>).\<close>

definition updatedWorkoutDto :: "WorkoutPlan \<Rightarrow> PartialGenerateWorkoutDto \<Rightarrow> GenerateWorkoutDto" where
  "updatedWorkoutDto existingPlan modifications =
     \<lparr>gw_userId = wp_userId existingPlan,
      gw_goal = str_or (pw_goal modifications) (wp_goal existingPlan),
      gw_difficulty = str_or (pw_difficulty modifications) (wp_difficulty existingPlan),
      gw_daysPerWeek = num_or (pw_daysPerWeek modifications) (wp_daysPerWeek existingPlan),
      gw_duration = num_or (pw_duration modifications) (wp_estimatedDuration existingPlan),
      gw_equipment = pw_equipment modifications,
      gw_targetMuscles = pw_targetMuscles modifications,
      gw_preferences = pw_preferences modifications\<rparr>"

definition regenerateWorkout ::
  "WorkoutEnv \<Rightarrow> string \<Rightarrow> PartialGenerateWorkoutDto \<Rightarrow> WorkoutPlan ApiResponse \<times> WorkoutEvent list" where
  "regenerateWorkout env planId modifications =
     (case getWorkoutPlan env planId of
        Inl msg \<Rightarrow> (createErrorResponse msg (Some ''Failed to regenerate workout plan''),
                    [GetWorkoutPlan planId])
      | Inr None \<Rightarrow> (createErrorResponse ''Workout plan not found''
                       (Some ''Cannot regenerate non-existent plan''), [GetWorkoutPlan planId])
      | Inr (Some existingPlan) \<Rightarrow>
          (let r = generateWorkout env (updatedWorkoutDto existingPlan modifications)
           in (fst r, GetWorkoutPlan planId # snd r)))"

section \<open>Notions of the specification\<close>

text \<open>The policy range of a calorie target: an integer from 1000 to 5000.\<close>

definition inPolicyRange :: "jsnum \<Rightarrow> bool" where
  "inPolicyRange T =
     (case T of Num q \<Rightarrow> of_int \<lfloor>q\<rfloor> = q \<and> 1000 \<le> q \<and> q \<le> 5000 | _ \<Rightarrow> False)"

text \<open>
  The Macro Aggregator as the specification words it: a fold over the meals that sums
  each of the four macro fields, the fiber of a meal counting as 0 when it is absent
  (and as its value when it is present).
\<close>

definition specAddMacros :: "Macros \<Rightarrow> Meal \<Rightarrow> Macros" where
  "specAddMacros tot meal =
     \<lparr>m_protein = js_add (m_protein tot) (m_protein (macros meal)),
      m_carbs = js_add (m_carbs tot) (m_carbs (macros meal)),
      m_fat = js_add (m_fat tot) (m_fat (macros meal)),
      m_fiber = Some (js_add (acc_fiber tot)
                        (case m_fiber (macros meal) of None \<Rightarrow> Num 0 | Some v \<Rightarrow> v))\<rparr>"

definition aggregate :: "Meal list \<Rightarrow> Macros" where
  "aggregate meals = foldl specAddMacros zeroMacros meals"

text \<open>
  A plan with every optional quantity that is 0 made absent: the protein, carbs and fat of
  an item and the fiber of a meal. Everything else is kept.
\<close>

definition dropZero :: "jsnum option \<Rightarrow> jsnum option" where
  "dropZero x = (if x = Some (Num 0) then None else x)"

definition dropZeroItem :: "NutritionItem \<Rightarrow> NutritionItem" where
  "dropZeroItem item =
     item\<lparr>item_protein := dropZero (item_protein item),
          item_carbs := dropZero (item_carbs item),
          item_fat := dropZero (item_fat item)\<rparr>"

definition dropZeroMeal :: "Meal \<Rightarrow> Meal" where
  "dropZeroMeal meal =
     meal\<lparr>items := map dropZeroItem (items meal),
          macros := (macros meal)\<lparr>m_fiber := dropZero (m_fiber (macros meal))\<rparr>\<rparr>"

definition dropZeroPlan :: "DietPlan \<Rightarrow> DietPlan" where
  "dropZeroPlan plan = plan\<lparr>dp_meals := map dropZeroMeal (dp_meals plan)\<rparr>"

text \<open>
  A path parameter that reads as an integer: an optional sign and then decimal digits,
  at least one, and nothing else.
\<close>

definition isIntegerText :: "string \<Rightarrow> bool" where
  "isIntegerText s =
     (let d = (if s \<noteq> [] \<and> (hd s = CHR ''+'' \<or> hd s = CHR ''-'') then tl s else s)
      in d \<noteq> [] \<and> list_all isDigit d)"

section \<open>Example data\<close>

text \<open>
  The breakfast of the controller's documented example response (oatmeal and a banana
  whose fat is 0), with a cup of tea that carries no macros, in a plan of 4000 calories.
\<close>

definition oatmeal :: NutritionItem where
  "oatmeal = \<lparr>item_name = ''Oatmeal'', item_quantity = ''1 cup'', item_calories = Num 300,
     item_protein = Some (Num 10), item_carbs = Some (Num 54), item_fat = Some (Num 6)\<rparr>"

definition banana :: NutritionItem where
  "banana = \<lparr>item_name = ''Banana'', item_quantity = ''1 medium'', item_calories = Num 105,
     item_protein = Some (Num 1), item_carbs = Some (Num 27), item_fat = Some (Num 0)\<rparr>"

definition tea :: NutritionItem where
  "tea = \<lparr>item_name = ''Tea'', item_quantity = ''1 cup'', item_calories = Num 0,
     item_protein = None, item_carbs = None, item_fat = None\<rparr>"

definition breakfast :: Meal where
  "breakfast = \<lparr>meal_name = ''Breakfast'', items = [oatmeal, banana, tea],
     meal_totalCalories = Num 405,
     macros = \<lparr>m_protein = Num 11, m_carbs = Num 81, m_fat = Num 6, m_fiber = Some (Num 8)\<rparr>\<rparr>"

definition demoPlan :: DietPlan where
  "demoPlan = \<lparr>dp_id = Some ''uuid-456'', dp_userId = ''u1'',
     dp_name = ''Weight Loss Nutrition Plan'', dp_description = ''Breakfast only'',
     dp_goal = ''bulk'', dp_totalCalories = Num 4000,
     dp_targetMacros = \<lparr>m_protein = Num 11, m_carbs = Num 81, m_fat = Num 6,
                         m_fiber = Some (Num 8)\<rparr>,
     dp_meals = [breakfast], dp_restrictions = [''vegetarian'']\<rparr>"

text \<open>The same plan stored with a total of 0 calories.\<close>

definition zeroPlan :: DietPlan where
  "zeroPlan = demoPlan\<lparr>dp_id := Some ''uuid-0'', dp_totalCalories := Num 0\<rparr>"

text \<open>A draft whose two meals sum to 1900 calories.\<close>

definition lunch :: Meal where
  "lunch = \<lparr>meal_name = ''Lunch'', items = [], meal_totalCalories = Num 1000,
     macros = \<lparr>m_protein = Num 60, m_carbs = Num 100, m_fat = Num 30, m_fiber = None\<rparr>\<rparr>"

definition dinner :: Meal where
  "dinner = \<lparr>meal_name = ''Dinner'', items = [], meal_totalCalories = Num 900,
     macros = \<lparr>m_protein = Num 50, m_carbs = Num 90, m_fat = Num 25, m_fiber = Some (Num 12)\<rparr>\<rparr>"

definition draft1900 :: AiDietResponse where
  "draft1900 = \<lparr>ai_name = ''Cut plan'', ai_description = ''Two meals'', ai_meals = [lunch, dinner]\<rparr>"

text \<open>
  An environment: no provider configured, OpenAI answering with the draft above, a store
  that holds the two plans and assigns the id \<open>uuid-789\<close> to what it saves.
\<close>

definition demoEnv :: DietEnv where
  "demoEnv = \<lparr>ai_defaultProvider = None,
     gemini_generateDietPlan = (\<lambda>dto. Inl ''Gemini is not configured''),
     openai_generateDietPlan = (\<lambda>dto. Inr draft1900),
     getDietPlan = (\<lambda>planId. if planId = ''uuid-456'' then Inr (Some demoPlan)
                              else if planId = ''uuid-0'' then Inr (Some zeroPlan)
                              else Inr None),
     saveDietPlan = (\<lambda>plan. Inr (plan\<lparr>dp_id := Some ''uuid-789''\<rparr>))\<rparr>"

definition cutRequest :: GenerateDietDto where
  "cutRequest = \<lparr>gd_userId = ''u1'', gd_calories = Num 2000, gd_goal = ''cut'',
     gd_restrictions = None, gd_mealsPerDay = None, gd_targetProtein = None,
     gd_preferredFoods = None, gd_avoidFoods = None, gd_preferences = None\<rparr>"

definition noModifications :: PartialGenerateDietDto where
  "noModifications = \<lparr>pd_userId = None, pd_calories = None, pd_goal = None,
     pd_restrictions = None, pd_mealsPerDay = None, pd_targetProtein = None,
     pd_preferredFoods = None, pd_avoidFoods = None, pd_preferences = None\<rparr>"

definition noWorkoutModifications :: PartialGenerateWorkoutDto where
  "noWorkoutModifications = \<lparr>pw_userId = None, pw_goal = None, pw_difficulty = None,
     pw_daysPerWeek = None, pw_duration = None, pw_equipment = None,
     pw_targetMuscles = None, pw_preferences = None\<rparr>"

definition demoWorkout :: WorkoutPlan where
  "demoWorkout = \<lparr>wp_id = Some ''uuid-123'', wp_userId = ''u1'', wp_name = ''Strength'',
     wp_description = ''Three days'', wp_difficulty = ''intermediate'', wp_goal = ''bulk'',
     wp_daysPerWeek = Num 3, wp_estimatedDuration = Num 45, wp_exercises = []\<rparr>"




section \<open>Facts about the numbers\<close>

lemma floor_int_half: "\<lfloor>rat_of_int n + 1 / 2\<rfloor> = n"
  by (rule floor_unique) simp_all

lemma round_mul_one: "Math_round (js_mul (Math_round x) (Num 1)) = Math_round x"
  by (cases x) (simp_all add: inf_of_sign_def floor_int_half del: floor_add_int)

lemma inPolicyRange_Num:
  "inPolicyRange T \<Longrightarrow> \<exists>t. T = Num t \<and> 1000 \<le> t \<and> t \<le> 5000"
  by (cases T) (auto simp: inPolicyRange_def)

lemma scalingFactor_pos:
  assumes "dp_totalCalories P = Num c" "0 < c" "T = Num t" "0 < t"
  shows "scalingFactor P T = Num (t / c) \<and> 0 < t / c"
  using assms by (simp add: scalingFactor_def)

lemma scale_opt_not_NaN: "0 < r \<Longrightarrow> scale_opt x (Num r) \<noteq> Some NaN"
  by (cases x; cases "the x") (auto simp: scale_opt_def truthy_def inf_of_sign_def)

section \<open>The rescaled plan\<close>



section \<open>The aggregate of the rescaled plan\<close>

lemma specAddMacros_eq:
  "m_fiber (macros m) \<noteq> Some NaN \<Longrightarrow> specAddMacros tot m = addMacros tot m"
  by (cases "m_fiber (macros m)") (auto simp: specAddMacros_def addMacros_def num_or_def truthy_def)

lemma foldl_cong_set:
  "(\<And>a x. x \<in> set xs \<Longrightarrow> f a x = g a x) \<Longrightarrow> foldl f a xs = foldl g a xs"
  by (induction xs arbitrary: a) simp_all

lemma aggregate_eq:
  "(\<And>m. m \<in> set ms \<Longrightarrow> m_fiber (macros m) \<noteq> Some NaN)
   \<Longrightarrow> aggregate ms = calculateTotalMacros ms"
  unfolding aggregate_def calculateTotalMacros_def
  by (rule foldl_cong_set) (simp add: specAddMacros_eq)

text \<open>
  Claim C5. For a plan \<open>P\<close> with a positive total and a target \<open>T\<close> in the policy range,
  the targetMacros of the rescaled plan is the aggregate of its own, already scaled
  meals: the sum of protein, carbs, fat and fiber over them, an absent fiber counting
  as 0. It is the result of calculateTotalMacros on those meals, and equally of the
  aggregator as the specification words it.
\<close>

theorem aggregate_of_rescaled_meals:
  assumes "dp_totalCalories P = Num c" and "0 < c" and "inPolicyRange T"
  shows "aggregate (dp_meals (adjustedPlan P T)) = dp_targetMacros (adjustedPlan P T)
    \<and> calculateTotalMacros (dp_meals (adjustedPlan P T)) = dp_targetMacros (adjustedPlan P T)"
proof -
  from assms(3) obtain t where t: "T = Num t" "1000 \<le> t" "t \<le> 5000"
    using inPolicyRange_Num by blast
  then have "0 < t" by simp
  with assms t have f: "scalingFactor P T = Num (t / c)" "0 < t / c"
    using scalingFactor_pos by blast+
  have "aggregate (adjustedMeals P T) = calculateTotalMacros (adjustedMeals P T)"
  proof (rule aggregate_eq)
    fix m assume "m \<in> set (adjustedMeals P T)"
    then obtain m0 where "m = adjustedMeal (Num (t / c)) m0"
      by (auto simp: adjustedMeals_def f)
    then show "m_fiber (macros m) \<noteq> Some NaN"
      using scale_opt_not_NaN [OF f(2)] by (simp add: adjustedMeal_def)
  qed
  then show ?thesis by (simp add: adjustedPlan_def)
qed

theorem aggregate_of_rescaled_meals_witness:
  "dp_totalCalories demoPlan = Num 4000 \<and> (0::rat) < 4000 \<and> inPolicyRange (Num 1000)
   \<and> aggregate (dp_meals (adjustedPlan demoPlan (Num 1000)))
       = dp_targetMacros (adjustedPlan demoPlan (Num 1000))
   \<and> calculateTotalMacros (dp_meals (adjustedPlan demoPlan (Num 1000)))
       = dp_targetMacros (adjustedPlan demoPlan (Num 1000))"
proof -
  have h: "dp_totalCalories demoPlan = Num 4000" "(0::rat) < 4000" "inPolicyRange (Num 1000)"
    by (simp_all add: demoPlan_def inPolicyRange_def)
  show ?thesis using h aggregate_of_rescaled_meals [OF h] by simp
qed

section \<open>Rescaling twice to the same target\<close>

lemma scale_opt_twice:
  assumes "0 < r"
  shows "scale_opt (scale_opt x (Num r)) (Num 1) = dropZero (scale_opt x (Num r))"
proof (cases "scale_opt x (Num r)")
  case None
  then show ?thesis by (simp add: scale_opt_def dropZero_def)
next
  case (Some w)
  then obtain v where w: "w = Math_round (js_mul v (Num r))"
    by (auto simp: scale_opt_def split: option.splits if_splits)
  from Some scale_opt_not_NaN [OF assms, of x] have "w \<noteq> NaN" by simp
  with Some w show ?thesis
    by (auto simp: scale_opt_def dropZero_def truthy_def round_mul_one)
qed

lemma adjustedItem_twice:
  "0 < r \<Longrightarrow>
   adjustedItem (Num 1) (adjustedItem (Num r) it) = dropZeroItem (adjustedItem (Num r) it)"
  by (simp add: adjustedItem_def dropZeroItem_def scale_opt_twice round_mul_one)

lemma adjustedMeal_twice:
  "0 < r \<Longrightarrow>
   adjustedMeal (Num 1) (adjustedMeal (Num r) m) = dropZeroMeal (adjustedMeal (Num r) m)"
  by (simp add: adjustedMeal_def dropZeroMeal_def scale_opt_twice round_mul_one adjustedItem_twice)

lemma num_or_dropZero: "num_or (dropZero x) d = num_or x d"
  by (simp add: num_or_def dropZero_def truthy_def)

lemma addMacros_dropZeroMeal: "addMacros tot (dropZeroMeal m) = addMacros tot m"
  by (simp add: addMacros_def dropZeroMeal_def num_or_dropZero)

lemma calculateTotalMacros_dropZero:
  "calculateTotalMacros (map dropZeroMeal ms) = calculateTotalMacros ms"
proof -
  have "foldl addMacros a (map dropZeroMeal ms) = foldl addMacros a ms" for a
    by (induction ms arbitrary: a) (simp_all add: addMacros_dropZeroMeal)
  then show ?thesis by (simp add: calculateTotalMacros_def)
qed

text \<open>
  Claim C4. Rescaling the rescaled plan to the same target should give the rescaled plan
  back. On the example plan with target 1000 it does not: the factor is 0.25, the
  banana's protein 1 is scaled to \<open>Math.round(0.25) = 0\<close>, and the second rescaling,
  whose factor is 1, finds that 0 falsy and makes the protein absent.
\<close>

theorem rescale_twice_drops_zero_protein:
  "js_gt (dp_totalCalories demoPlan) (Num 0) \<and> inPolicyRange (Num 1000)
   \<and> map item_protein (items (hd (dp_meals (adjustedPlan demoPlan (Num 1000)))))
       = [Some (Num 3), Some (Num 0), None]
   \<and> map item_protein
         (items (hd (dp_meals (adjustedPlan (adjustedPlan demoPlan (Num 1000)) (Num 1000)))))
       = [Some (Num 3), None, None]
   \<and> adjustedPlan (adjustedPlan demoPlan (Num 1000)) (Num 1000)
       \<noteq> adjustedPlan demoPlan (Num 1000)"
  by code_simp

text \<open>
  That is the only difference. For a plan \<open>P\<close> with a positive total and a target \<open>T\<close>
  in the policy range, rescaling the rescaled plan to \<open>T\<close> again gives the rescaled plan
  with every optional quantity that is 0 there (an item's protein, carbs or fat, a meal's
  fiber) made absent; the target, the meal totals, the item calories, the required macros
  and targetMacros are those of the rescaled plan.
\<close>

theorem rescale_twice_drops_zero_optionals:
  assumes "dp_totalCalories P = Num c" and "0 < c" and "inPolicyRange T"
  shows "adjustedPlan (adjustedPlan P T) T = dropZeroPlan (adjustedPlan P T)"
proof -
  from assms(3) obtain t where t: "T = Num t" "1000 \<le> t" "t \<le> 5000"
    using inPolicyRange_Num by blast
  then have tpos: "0 < t" by simp
  with assms t have f: "scalingFactor P T = Num (t / c)" "0 < t / c"
    using scalingFactor_pos by blast+
  have one: "scalingFactor (adjustedPlan P T) T = Num 1"
    using t tpos by (simp add: scalingFactor_def adjustedPlan_def)
  have meals: "adjustedMeals (adjustedPlan P T) T = map dropZeroMeal (adjustedMeals P T)"
    unfolding adjustedMeals_def [of "adjustedPlan P T"] one
    by (simp add: adjustedPlan_def adjustedMeals_def f adjustedMeal_twice [OF f(2)])
  show ?thesis
    unfolding adjustedPlan_def [of "adjustedPlan P T"] meals calculateTotalMacros_dropZero
    by (simp add: adjustedPlan_def dropZeroPlan_def)
qed

theorem rescale_twice_drops_zero_optionals_witness:
  "dp_totalCalories demoPlan = Num 4000 \<and> (0::rat) < 4000 \<and> inPolicyRange (Num 1000)
   \<and> adjustedPlan (adjustedPlan demoPlan (Num 1000)) (Num 1000)
       = dropZeroPlan (adjustedPlan demoPlan (Num 1000))"
proof -
  have h: "dp_totalCalories demoPlan = Num 4000" "(0::rat) < 4000" "inPolicyRange (Num 1000)"
    by (simp_all add: demoPlan_def inPolicyRange_def)
  show ?thesis using h rescale_twice_drops_zero_optionals [OF h] by simp
qed

section \<open>Optional quantities that are 0\<close>



section \<open>Regeneration keeps the owner\<close>

text \<open>
  Claim C8. The merged request's userId is the stored plan's userId, and a userId in the
  modifications changes neither the merged request nor anything else a regeneration
  does: two runs whose modifications differ in userId only are the same run, for diets
  and for workouts.
\<close>

theorem regenerate_keeps_owner:
  "gd_userId (updatedDto existingPlan modifications) = dp_userId existingPlan
   \<and> updatedDto existingPlan (modifications\<lparr>pd_userId := u\<rparr>)
       = updatedDto existingPlan modifications
   \<and> regenerateDiet env planId (modifications\<lparr>pd_userId := u\<rparr>)
       = regenerateDiet env planId modifications
   \<and> gw_userId (updatedWorkoutDto existingW modificationsW) = wp_userId existingW
   \<and> updatedWorkoutDto existingW (modificationsW\<lparr>pw_userId := u\<rparr>)
       = updatedWorkoutDto existingW modificationsW
   \<and> regenerateWorkout envW planId (modificationsW\<lparr>pw_userId := u\<rparr>)
       = regenerateWorkout envW planId modificationsW"
proof -
  have d: "\<And>e. updatedDto e (modifications\<lparr>pd_userId := u\<rparr>) = updatedDto e modifications"
    by (simp add: updatedDto_def)
  have w: "\<And>e. updatedWorkoutDto e (modificationsW\<lparr>pw_userId := u\<rparr>)
      = updatedWorkoutDto e modificationsW"
    by (simp add: updatedWorkoutDto_def)
  have "gd_userId (updatedDto existingPlan modifications) = dp_userId existingPlan"
    by (simp add: updatedDto_def)
  moreover have "gw_userId (updatedWorkoutDto existingW modificationsW) = wp_userId existingW"
    by (simp add: updatedWorkoutDto_def)
  moreover have "regenerateDiet env planId (modifications\<lparr>pd_userId := u\<rparr>)
      = regenerateDiet env planId modifications"
    unfolding regenerateDiet_def d ..
  moreover have "regenerateWorkout envW planId (modificationsW\<lparr>pw_userId := u\<rparr>)
      = regenerateWorkout envW planId modificationsW"
    unfolding regenerateWorkout_def w ..
  ultimately show ?thesis using d w by simp
qed

theorem regenerate_keeps_owner_witness:
  "gd_userId (updatedDto demoPlan (noModifications\<lparr>pd_userId := Some ''u2''\<rparr>)) = ''u1''
   \<and> regenerateDiet demoEnv ''uuid-456'' (noModifications\<lparr>pd_userId := Some ''u2''\<rparr>)
       = regenerateDiet demoEnv ''uuid-456'' noModifications
   \<and> gw_userId (updatedWorkoutDto demoWorkout (noWorkoutModifications\<lparr>pw_userId := Some ''u2''\<rparr>))
       = ''u1''"
proof -
  have u: "dp_userId demoPlan = ''u1''" "wp_userId demoWorkout = ''u1''"
    by (simp_all add: demoPlan_def demoWorkout_def)
  from regenerate_keeps_owner [of demoPlan "noModifications\<lparr>pd_userId := Some ''u2''\<rparr>"
      "Some ''u2''" demoEnv "''uuid-456''" demoWorkout
      "noWorkoutModifications\<lparr>pw_userId := Some ''u2''\<rparr>"]
    regenerate_keeps_owner [of demoPlan noModifications "Some ''u2''" demoEnv "''uuid-456''"]
    u show ?thesis
    by simp
qed

section \<open>A stored total of 0\<close>

lemma not_finite_times_inf: "\<not> isFinite (Math_round (js_mul x PosInf))"
  by (cases x) (auto simp: inf_of_sign_def)

lemma scalingFactor_zero_total:
  "dp_totalCalories P = Num 0 \<Longrightarrow> inPolicyRange T \<Longrightarrow> scalingFactor P T = PosInf"
  by (cases T) (auto simp: scalingFactor_def inPolicyRange_def inf_of_sign_def)

text \<open>
  Claim C2, as stated: on a plan whose stored total is 0 the operation fails and no plan
  with Infinity or NaN is produced. On the stored example plan with total 0 and the
  parameter \<open>2000\<close> the controller answers with success, and the plan handed to the store
  has the meal total Infinity, the item calories Infinity, Infinity and NaN, and
  targetMacros Infinity throughout.
\<close>

theorem zero_total_counterexample:
  "dp_totalCalories zeroPlan = Num 0
   \<and> getDietPlan demoEnv ''uuid-0'' = Inr (Some zeroPlan)
   \<and> parseInt ''2000'' = Num 2000
   \<and> success (fst (controller_adjustCalories demoEnv ''uuid-0'' ''2000'')) = True
   \<and> error (fst (controller_adjustCalories demoEnv ''uuid-0'' ''2000'')) = None
   \<and> snd (controller_adjustCalories demoEnv ''uuid-0'' ''2000'')
       = [GetDietPlan ''uuid-0'', SaveDietPlan (adjustedPlan zeroPlan (Num 2000))]
   \<and> map meal_totalCalories (dp_meals (adjustedPlan zeroPlan (Num 2000))) = [PosInf]
   \<and> map item_calories (items (hd (dp_meals (adjustedPlan zeroPlan (Num 2000)))))
       = [PosInf, PosInf, NaN]
   \<and> dp_targetMacros (adjustedPlan zeroPlan (Num 2000))
       = \<lparr>m_protein = PosInf, m_carbs = PosInf, m_fat = PosInf, m_fiber = Some PosInf\<rparr>"
  by code_simp

text \<open>
  Claim C2, amended. There is no guard on the stored total. For a stored plan \<open>P\<close> whose
  total is 0 and a target \<open>T\<close> in the policy range the scaling factor is Infinity, the
  operation reads the plan and hands \<open>adjustedPlan P T\<close> to the store, answers with
  success when the store accepts it, and in that plan totalCalories is \<open>T\<close> while every
  meal total, every required macro of a meal and every item's calories is Infinity,
  -Infinity or NaN.
\<close>

theorem zero_total_not_guarded:
  assumes "getDietPlan env planId = Inr (Some P)"
    and "dp_totalCalories P = Num 0" and "inPolicyRange T"
  shows "scalingFactor P T = PosInf
    \<and> snd (adjustCalories env planId T) = [GetDietPlan planId, SaveDietPlan (adjustedPlan P T)]
    \<and> (\<forall>savedDiet. saveDietPlan env (adjustedPlan P T) = Inr savedDiet \<longrightarrow>
          fst (adjustCalories env planId T)
            = createSuccessResponse savedDiet (Some ''Diet plan calories adjusted successfully''))
    \<and> dp_totalCalories (adjustedPlan P T) = T
    \<and> (\<forall>m \<in> set (dp_meals (adjustedPlan P T)).
          \<not> isFinite (meal_totalCalories m)
          \<and> \<not> isFinite (m_protein (macros m))
          \<and> \<not> isFinite (m_carbs (macros m))
          \<and> \<not> isFinite (m_fat (macros m))
          \<and> (\<forall>it \<in> set (items m). \<not> isFinite (item_calories it)))"
proof -
  have f: "scalingFactor P T = PosInf"
    using assms(2,3) by (rule scalingFactor_zero_total)
  have "snd (adjustCalories env planId T) = [GetDietPlan planId, SaveDietPlan (adjustedPlan P T)]"
    using assms(1) by (simp add: adjustCalories_def split: sum.splits)
  moreover have "\<forall>savedDiet. saveDietPlan env (adjustedPlan P T) = Inr savedDiet \<longrightarrow>
          fst (adjustCalories env planId T)
            = createSuccessResponse savedDiet (Some ''Diet plan calories adjusted successfully'')"
    using assms(1) by (simp add: adjustCalories_def)
  moreover have "dp_totalCalories (adjustedPlan P T) = T"
    by (simp add: adjustedPlan_def)
  moreover have "\<forall>m \<in> set (dp_meals (adjustedPlan P T)).
          \<not> isFinite (meal_totalCalories m)
          \<and> \<not> isFinite (m_protein (macros m))
          \<and> \<not> isFinite (m_carbs (macros m))
          \<and> \<not> isFinite (m_fat (macros m))
          \<and> (\<forall>it \<in> set (items m). \<not> isFinite (item_calories it))"
    by (auto simp: adjustedPlan_def adjustedMeals_def f adjustedMeal_def adjustedItem_def
        not_finite_times_inf)
  ultimately show ?thesis using f by blast
qed

theorem zero_total_not_guarded_witness:
  "getDietPlan demoEnv ''uuid-0'' = Inr (Some zeroPlan)
   \<and> dp_totalCalories zeroPlan = Num 0 \<and> inPolicyRange (Num 2000)
   \<and> saveDietPlan demoEnv (adjustedPlan zeroPlan (Num 2000))
       = Inr ((adjustedPlan zeroPlan (Num 2000))\<lparr>dp_id := Some ''uuid-789''\<rparr>)
   \<and> adjustedMeal PosInf breakfast \<in> set (dp_meals (adjustedPlan zeroPlan (Num 2000)))
   \<and> adjustedItem PosInf tea \<in> set (items (adjustedMeal PosInf breakfast))
   \<and> \<not> isFinite (meal_totalCalories (adjustedMeal PosInf breakfast))
   \<and> \<not> isFinite (item_calories (adjustedItem PosInf tea))
   \<and> scalingFactor zeroPlan (Num 2000) = PosInf
   \<and> snd (adjustCalories demoEnv ''uuid-0'' (Num 2000))
       = [GetDietPlan ''uuid-0'', SaveDietPlan (adjustedPlan zeroPlan (Num 2000))]
   \<and> fst (adjustCalories demoEnv ''uuid-0'' (Num 2000))
       = createSuccessResponse ((adjustedPlan zeroPlan (Num 2000))\<lparr>dp_id := Some ''uuid-789''\<rparr>)
           (Some ''Diet plan calories adjusted successfully'')"
proof -
  have h: "getDietPlan demoEnv ''uuid-0'' = Inr (Some zeroPlan)"
      "dp_totalCalories zeroPlan = Num 0" "inPolicyRange (Num 2000)"
    by (simp_all add: demoEnv_def zeroPlan_def inPolicyRange_def)
  have s: "saveDietPlan demoEnv (adjustedPlan zeroPlan (Num 2000))
       = Inr ((adjustedPlan zeroPlan (Num 2000))\<lparr>dp_id := Some ''uuid-789''\<rparr>)"
    by (simp add: demoEnv_def)
  note r = zero_total_not_guarded [OF h]
  have b: "adjustedMeal PosInf breakfast \<in> set (dp_meals (adjustedPlan zeroPlan (Num 2000)))"
    using r by (simp add: adjustedPlan_def adjustedMeals_def zeroPlan_def demoPlan_def)
  have i: "adjustedItem PosInf tea \<in> set (items (adjustedMeal PosInf breakfast))"
    by (simp add: adjustedMeal_def breakfast_def)
  from r h s b i show ?thesis by blast
qed

section \<open>Present quantities that are 0\<close>

text \<open>
  Claim C3. A quantity that is present in the stored plan should be present, scaled, in
  the adjusted plan. The banana of the example plan has \<open>fat: 0\<close>; after adjusting the
  plan to 2000 calories (factor 0.5) its fat is absent, where the scaled value is
  \<open>Math.round(0 * 0.5) = 0\<close>. The oatmeal's fat 6 is scaled to 3, the tea's absent fat
  stays absent.
\<close>

theorem adjustCalories_drops_zero_fat:
  "map item_fat (items (hd (dp_meals demoPlan))) = [Some (Num 6), Some (Num 0), None]
   \<and> snd (controller_adjustCalories demoEnv ''uuid-456'' ''2000'')
       = [GetDietPlan ''uuid-456'', SaveDietPlan (adjustedPlan demoPlan (Num 2000))]
   \<and> scalingFactor demoPlan (Num 2000) = Num (1 / 2)
   \<and> map item_fat (items (hd (dp_meals (adjustedPlan demoPlan (Num 2000)))))
       = [Some (Num 3), None, None]
   \<and> Math_round (js_mul (Num 0) (scalingFactor demoPlan (Num 2000))) = Num 0"
  by code_simp

section \<open>The calories parameter\<close>

text \<open>
  Claim C6, as stated: every parameter that is not numeric is rejected before the service
  is called. The parameter \<open>2000abc\<close> is not an integer text, yet \<^verbatim>\<open>parseInt\<close> reads
  2000 from it, the guard lets it pass, and the service reads the plan and saves the
  adjusted one.
\<close>

theorem lenient_parse_counterexample:
  "\<not> isIntegerText ''2000abc''
   \<and> parseInt ''2000abc'' = Num 2000
   \<and> success (fst (controller_adjustCalories demoEnv ''uuid-456'' ''2000abc'')) = True
   \<and> snd (controller_adjustCalories demoEnv ''uuid-456'' ''2000abc'')
       = [GetDietPlan ''uuid-456'', SaveDietPlan (adjustedPlan demoPlan (Num 2000))]"
  by code_simp

text \<open>
  Claim C6, amended. For every parameter from which \<^verbatim>\<open>parseInt(calories, 10)\<close> reads
  no number (NaN: no digit after the optional white space and sign) or a number below
  1000 or above 5000, the controller answers with the failure envelope carrying the text
  \<open>Invalid calories value. Must be between 1000 and 5000.\<close> and nothing else, and no
  event happens: the service is not called, the store is neither read nor written.
\<close>

theorem invalid_calories_rejected:
  assumes "isNaN (parseInt calories) \<or> js_lt (parseInt calories) (Num 1000)
           \<or> js_gt (parseInt calories) (Num 5000)"
  shows "controller_adjustCalories env planId calories
         = (\<lparr>success = False, data = None,
             error = Some ''Invalid calories value. Must be between 1000 and 5000.'',
             message = None\<rparr>, [])"
  using assms by (simp add: controller_adjustCalories_def invalidCalories_def Let_def)

theorem invalid_calories_rejected_witness:
  "parseInt ''500'' = Num 500 \<and> parseInt ''abc'' = NaN
   \<and> (isNaN (parseInt ''500'') \<or> js_lt (parseInt ''500'') (Num 1000)
           \<or> js_gt (parseInt ''500'') (Num 5000))
   \<and> (isNaN (parseInt ''abc'') \<or> js_lt (parseInt ''abc'') (Num 1000)
           \<or> js_gt (parseInt ''abc'') (Num 5000))
   \<and> controller_adjustCalories demoEnv ''uuid-456'' ''500''
         = (\<lparr>success = False, data = None,
             error = Some ''Invalid calories value. Must be between 1000 and 5000.'',
             message = None\<rparr>, [])
   \<and> controller_adjustCalories demoEnv ''uuid-456'' ''abc''
         = (\<lparr>success = False, data = None,
             error = Some ''Invalid calories value. Must be between 1000 and 5000.'',
             message = None\<rparr>, [])"
proof -
  have p: "parseInt ''500'' = Num 500" "parseInt ''abc'' = NaN"
    by code_simp+
  have h1: "isNaN (parseInt ''500'') \<or> js_lt (parseInt ''500'') (Num 1000)
           \<or> js_gt (parseInt ''500'') (Num 5000)"
    by (simp add: p)
  have h2: "isNaN (parseInt ''abc'') \<or> js_lt (parseInt ''abc'') (Num 1000)
           \<or> js_gt (parseInt ''abc'') (Num 5000)"
    by (simp add: p)
  from invalid_calories_rejected [OF h1] invalid_calories_rejected [OF h2] p h1 h2
  show ?thesis by blast
qed

section \<open>The regeneration merge\<close>

text \<open>
  Claim C7, as stated: a field that is present in the modifications is taken from them.
  With \<open>calories: 0\<close> and an empty goal present, the merged request carries the stored
  plan's 2500 calories and its goal; with \<open>duration: 0\<close> present, the merged workout
  request carries the stored estimatedDuration 45.
\<close>

theorem regenerate_merge_counterexample:
  "pd_calories (noModifications\<lparr>pd_calories := Some (Num 0), pd_goal := Some ''''\<rparr>) = Some (Num 0)
   \<and> pd_goal (noModifications\<lparr>pd_calories := Some (Num 0), pd_goal := Some ''''\<rparr>) = Some ''''
   \<and> gd_calories (updatedDto (demoPlan\<lparr>dp_totalCalories := Num 2500\<rparr>)
        (noModifications\<lparr>pd_calories := Some (Num 0), pd_goal := Some ''''\<rparr>)) = Num 2500
   \<and> gd_goal (updatedDto (demoPlan\<lparr>dp_totalCalories := Num 2500\<rparr>)
        (noModifications\<lparr>pd_calories := Some (Num 0), pd_goal := Some ''''\<rparr>)) = ''bulk''
   \<and> pw_duration (noWorkoutModifications\<lparr>pw_duration := Some (Num 0)\<rparr>) = Some (Num 0)
   \<and> gw_duration
        (updatedWorkoutDto demoWorkout (noWorkoutModifications\<lparr>pw_duration := Some (Num 0)\<rparr>))
       = Num 45"
  by code_simp

text \<open>
  Claim C7, amended. The merged request takes userId from the stored plan; it takes
  calories, goal, difficulty, daysPerWeek and duration from the modifications when the
  field is present and truthy there (a number other than 0 and NaN, a string that is not
  empty), and otherwise from the stored plan's totalCalories, goal, difficulty,
  daysPerWeek and estimatedDuration; restrictions from the modifications when present,
  otherwise from the stored plan; every other field from the modifications alone. So the
  modifications \<open>{goal: "cut"}\<close> merged into a plan of user u1 with goal bulk, 2500
  calories and estimatedDuration 45 give userId u1, goal cut, calories 2500, duration 45.
\<close>

theorem regenerate_merge:
  "gd_userId (updatedDto existingPlan modifications) = dp_userId existingPlan
   \<and> gd_calories (updatedDto existingPlan modifications)
       = (if pd_calories modifications \<in> {None, Some (Num 0), Some NaN}
          then dp_totalCalories existingPlan else the (pd_calories modifications))
   \<and> gd_goal (updatedDto existingPlan modifications)
       = (if pd_goal modifications \<in> {None, Some ''''}
          then dp_goal existingPlan else the (pd_goal modifications))
   \<and> gd_restrictions (updatedDto existingPlan modifications)
       = (if pd_restrictions modifications = None
          then Some (dp_restrictions existingPlan) else pd_restrictions modifications)
   \<and> gd_mealsPerDay (updatedDto existingPlan modifications) = pd_mealsPerDay modifications
   \<and> gd_targetProtein (updatedDto existingPlan modifications) = pd_targetProtein modifications
   \<and> gd_preferredFoods (updatedDto existingPlan modifications) = pd_preferredFoods modifications
   \<and> gd_avoidFoods (updatedDto existingPlan modifications) = pd_avoidFoods modifications
   \<and> gd_preferences (updatedDto existingPlan modifications) = pd_preferences modifications
   \<and> gw_userId (updatedWorkoutDto existingW modificationsW) = wp_userId existingW
   \<and> gw_goal (updatedWorkoutDto existingW modificationsW)
       = (if pw_goal modificationsW \<in> {None, Some ''''}
          then wp_goal existingW else the (pw_goal modificationsW))
   \<and> gw_difficulty (updatedWorkoutDto existingW modificationsW)
       = (if pw_difficulty modificationsW \<in> {None, Some ''''}
          then wp_difficulty existingW else the (pw_difficulty modificationsW))
   \<and> gw_daysPerWeek (updatedWorkoutDto existingW modificationsW)
       = (if pw_daysPerWeek modificationsW \<in> {None, Some (Num 0), Some NaN}
          then wp_daysPerWeek existingW else the (pw_daysPerWeek modificationsW))
   \<and> gw_duration (updatedWorkoutDto existingW modificationsW)
       = (if pw_duration modificationsW \<in> {None, Some (Num 0), Some NaN}
          then wp_estimatedDuration existingW else the (pw_duration modificationsW))
   \<and> gw_equipment (updatedWorkoutDto existingW modificationsW) = pw_equipment modificationsW
   \<and> gw_targetMuscles (updatedWorkoutDto existingW modificationsW)
       = pw_targetMuscles modificationsW
   \<and> gw_preferences (updatedWorkoutDto existingW modificationsW) = pw_preferences modificationsW"
  by (auto simp: updatedDto_def updatedWorkoutDto_def num_or_def str_or_def list_or_def truthy_def
      split: option.splits)

theorem regenerate_merge_witness:
  "gd_userId (updatedDto (demoPlan\<lparr>dp_totalCalories := Num 2500\<rparr>)
        (noModifications\<lparr>pd_goal := Some ''cut''\<rparr>)) = ''u1''
   \<and> gd_goal (updatedDto (demoPlan\<lparr>dp_totalCalories := Num 2500\<rparr>)
        (noModifications\<lparr>pd_goal := Some ''cut''\<rparr>)) = ''cut''
   \<and> gd_calories (updatedDto (demoPlan\<lparr>dp_totalCalories := Num 2500\<rparr>)
        (noModifications\<lparr>pd_goal := Some ''cut''\<rparr>)) = Num 2500
   \<and> gw_userId (updatedWorkoutDto demoWorkout (noWorkoutModifications\<lparr>pw_goal := Some ''cut''\<rparr>))
       = ''u1''
   \<and> gw_goal (updatedWorkoutDto demoWorkout (noWorkoutModifications\<lparr>pw_goal := Some ''cut''\<rparr>))
       = ''cut''
   \<and> gw_duration (updatedWorkoutDto demoWorkout (noWorkoutModifications\<lparr>pw_goal := Some ''cut''\<rparr>))
       = Num 45"
proof -
  have e: "dp_userId (demoPlan\<lparr>dp_totalCalories := Num 2500\<rparr>) = ''u1''"
      "dp_goal (demoPlan\<lparr>dp_totalCalories := Num 2500\<rparr>) = ''bulk''"
      "dp_totalCalories (demoPlan\<lparr>dp_totalCalories := Num 2500\<rparr>) = Num 2500"
      "wp_userId demoWorkout = ''u1''" "wp_estimatedDuration demoWorkout = Num 45"
    by (simp_all add: demoPlan_def demoWorkout_def)
  have m: "pd_goal (noModifications\<lparr>pd_goal := Some ''cut''\<rparr>) = Some ''cut''"
      "pd_calories (noModifications\<lparr>pd_goal := Some ''cut''\<rparr>) = None"
      "pw_goal (noWorkoutModifications\<lparr>pw_goal := Some ''cut''\<rparr>) = Some ''cut''"
      "pw_duration (noWorkoutModifications\<lparr>pw_goal := Some ''cut''\<rparr>) = None"
    by (simp_all add: noModifications_def noWorkoutModifications_def)
  from regenerate_merge [of "demoPlan\<lparr>dp_totalCalories := Num 2500\<rparr>"
      "noModifications\<lparr>pd_goal := Some ''cut''\<rparr>" demoWorkout
      "noWorkoutModifications\<lparr>pw_goal := Some ''cut''\<rparr>"] e m
  show ?thesis by simp
qed

section \<open>Generation\<close>

text \<open>
  Claim C9. Whenever the selected provider returns a draft, generateDiet hands to the
  store the plan \<open>dietPlan dto aiResponse\<close>: its totalCalories is the request's calories,
  its meals are the draft's meals as they are, and its targetMacros is
  calculateTotalMacros of those meals; when the store accepts it, the answer is the
  success envelope around what the store returned. Nothing is scaled: a draft of 1900
  calories for a target of 2000 is saved with totalCalories 2000 and its own macros.
\<close>

theorem generateDiet_saves_target:
  assumes "fst (callProvider env dto) = Inr aiResponse"
  shows "snd (generateDiet env dto)
           = [snd (callProvider env dto), SaveDietPlan (dietPlan dto aiResponse)]
    \<and> (\<forall>savedDiet. saveDietPlan env (dietPlan dto aiResponse) = Inr savedDiet \<longrightarrow>
          fst (generateDiet env dto)
            = createSuccessResponse savedDiet (Some ''Diet plan generated successfully''))
    \<and> dp_totalCalories (dietPlan dto aiResponse) = gd_calories dto
    \<and> dp_targetMacros (dietPlan dto aiResponse) = calculateTotalMacros (ai_meals aiResponse)
    \<and> dp_meals (dietPlan dto aiResponse) = ai_meals aiResponse"
  using assms by (simp add: generateDiet_def dietPlan_def split: sum.splits)

theorem generateDiet_saves_target_witness:
  "fst (callProvider demoEnv cutRequest) = Inr draft1900
   \<and> map meal_totalCalories (ai_meals draft1900) = [Num 1000, Num 900]
   \<and> saveDietPlan demoEnv (dietPlan cutRequest draft1900)
       = Inr ((dietPlan cutRequest draft1900)\<lparr>dp_id := Some ''uuid-789''\<rparr>)
   \<and> snd (generateDiet demoEnv cutRequest)
       = [OpenAiGenerateDietPlan cutRequest, SaveDietPlan (dietPlan cutRequest draft1900)]
   \<and> fst (generateDiet demoEnv cutRequest)
       = createSuccessResponse ((dietPlan cutRequest draft1900)\<lparr>dp_id := Some ''uuid-789''\<rparr>)
           (Some ''Diet plan generated successfully'')
   \<and> dp_totalCalories (dietPlan cutRequest draft1900) = Num 2000
   \<and> dp_meals (dietPlan cutRequest draft1900) = [lunch, dinner]
   \<and> dp_targetMacros (dietPlan cutRequest draft1900)
       = \<lparr>m_protein = Num 110, m_carbs = Num 190, m_fat = Num 55, m_fiber = Some (Num 12)\<rparr>"
proof -
  have h: "fst (callProvider demoEnv cutRequest) = Inr draft1900"
    by (simp add: callProvider_def demoEnv_def str_or_def)
  have e: "snd (callProvider demoEnv cutRequest) = OpenAiGenerateDietPlan cutRequest"
    by (simp add: callProvider_def demoEnv_def str_or_def)
  have s: "saveDietPlan demoEnv (dietPlan cutRequest draft1900)
       = Inr ((dietPlan cutRequest draft1900)\<lparr>dp_id := Some ''uuid-789''\<rparr>)"
    by (simp add: demoEnv_def)
  have c: "gd_calories cutRequest = Num 2000" "ai_meals draft1900 = [lunch, dinner]"
    by (simp_all add: cutRequest_def draft1900_def)
  have m: "map meal_totalCalories (ai_meals draft1900) = [Num 1000, Num 900]"
    by (simp add: draft1900_def lunch_def dinner_def)
  have a: "calculateTotalMacros [lunch, dinner]
       = \<lparr>m_protein = Num 110, m_carbs = Num 190, m_fat = Num 55, m_fiber = Some (Num 12)\<rparr>"
    by (simp add: calculateTotalMacros_def addMacros_def zeroMacros_def lunch_def dinner_def
        acc_fiber_def num_or_def truthy_def)
  from generateDiet_saves_target [OF h] h e s c m a show ?thesis by simp
qed

end
